theory Spec2Isabelle
  imports Main "HOL-Library.Sublist"
begin

section \<open>Python values, errors and the operations the renderer applies to them\<close>

text \<open>
  Notebook content reaches the renderer as JSON that was read into Python objects:
  cell metadata, outputs and mime bundles are dictionaries with string keys whose values
  are arbitrary.  The code tests the run-time type of some of them
  (\<^verbatim>\<open>isinstance(..., dict)\<close>), so the values keep their Python type here.
  A dictionary is an association list read with \<^const>\<open>map_of\<close>, so the first binding of
  a key is the one that counts; its keys are counted and iterated without repetition.
  Floating point numbers do not occur in anything the modelled code inspects and are
  left out.
\<close>

datatype json =
    JNull
  | JBool bool
  | JInt int
  | JStr string
  | JList "json list"
  | JDict "(string \<times> json) list"

type_synonym pydict = "(string \<times> json) list"

text \<open>The exceptions the modelled code can raise; the argument is the offending name.\<close>

datatype error =
    KeyError string
  | AttributeError string
  | TypeError
  | IndexError

definition and_then :: "error + 'a \<Rightarrow> ('a \<Rightarrow> error + 'b) \<Rightarrow> error + 'b" where
  "and_then m f = (case m of Inl e \<Rightarrow> Inl e | Inr v \<Rightarrow> f v)"

text \<open>Truth value testing: \<^verbatim>\<open>bool(v)\<close>.\<close>

fun py_truthy :: "json \<Rightarrow> bool" where
  "py_truthy JNull = False"
| "py_truthy (JBool b) = b"
| "py_truthy (JInt i) = (i \<noteq> 0)"
| "py_truthy (JStr s) = (s \<noteq> [])"
| "py_truthy (JList xs) = (xs \<noteq> [])"
| "py_truthy (JDict d) = (d \<noteq> [])"

text \<open>\<^verbatim>\<open>s in t\<close> for two strings: \<^verbatim>\<open>s\<close> occurs in \<^verbatim>\<open>t\<close> as a contiguous piece.\<close>

fun py_substring :: "string \<Rightarrow> string \<Rightarrow> bool" where
  "py_substring s [] = (s = [])"
| "py_substring s (c # cs) = (prefix s (c # cs) \<or> py_substring s cs)"

text \<open>
  \<^verbatim>\<open>k in d\<close> for a dictionary, and \<^verbatim>\<open>x in v\<close> for a string \<^verbatim>\<open>x\<close> and any value:
  key membership for a dictionary, element membership for a list, substring test for a
  string, \<^verbatim>\<open>TypeError\<close> for a value that is not a container.
\<close>

definition dict_has :: "pydict \<Rightarrow> string \<Rightarrow> bool" where
  "dict_has d k = (map_of d k \<noteq> None)"

fun py_in :: "string \<Rightarrow> json \<Rightarrow> error + bool" where
  "py_in x (JDict d) = Inr (dict_has d x)"
| "py_in x (JList xs) = Inr (JStr x \<in> set xs)"
| "py_in x (JStr t) = Inr (py_substring x t)"
| "py_in x v = Inl TypeError"

text \<open>\<^verbatim>\<open>d.get(k, default)\<close> and \<^verbatim>\<open>d[k]\<close> on a dictionary.\<close>

definition dict_get :: "pydict \<Rightarrow> string \<Rightarrow> json \<Rightarrow> json" where
  "dict_get d k dflt = (case map_of d k of Some v \<Rightarrow> v | None \<Rightarrow> dflt)"

definition dict_getitem :: "pydict \<Rightarrow> string \<Rightarrow> error + json" where
  "dict_getitem d k = (case map_of d k of Some v \<Rightarrow> Inr v | None \<Rightarrow> Inl (KeyError k))"

text \<open>
  \<^verbatim>\<open>v[k]\<close> with a string \<^verbatim>\<open>k\<close> on any value: only a dictionary can be indexed by a
  string.  \<^verbatim>\<open>v.k\<close> on a notebook node reads the key \<^verbatim>\<open>k\<close> and raises
  \<^verbatim>\<open>AttributeError\<close> when it is missing; other values have no such attribute.
\<close>

fun py_getitem :: "json \<Rightarrow> string \<Rightarrow> error + json" where
  "py_getitem (JDict d) k = dict_getitem d k"
| "py_getitem v k = Inl TypeError"

fun py_getattr :: "json \<Rightarrow> string \<Rightarrow> error + json" where
  "py_getattr (JDict d) k =
     (case map_of d k of Some v \<Rightarrow> Inr v | None \<Rightarrow> Inl (AttributeError k))"
| "py_getattr v k = Inl (AttributeError k)"

text \<open>\<^verbatim>\<open>v.get(k, default)\<close> on any value: only a dictionary has the method.\<close>

fun py_get :: "json \<Rightarrow> string \<Rightarrow> json \<Rightarrow> error + json" where
  "py_get (JDict d) k dflt = Inr (dict_get d k dflt)"
| "py_get v k dflt = Inl (AttributeError ''get'')"

text \<open>Iterating a value (\<^verbatim>\<open>for x in v\<close>) and \<^verbatim>\<open>len(v)\<close>.\<close>

fun py_iter :: "json \<Rightarrow> error + json list" where
  "py_iter (JList xs) = Inr xs"
| "py_iter (JStr s) = Inr (map (\<lambda>c. JStr [c]) s)"
| "py_iter (JDict d) = Inr (map JStr (remdups (map fst d)))"
| "py_iter v = Inl TypeError"

fun py_len :: "json \<Rightarrow> error + nat" where
  "py_len (JList xs) = Inr (length xs)"
| "py_len (JStr s) = Inr (length s)"
| "py_len (JDict d) = Inr (length (remdups (map fst d)))"
| "py_len v = Inl TypeError"


section \<open>The render-time configuration resolver (docutils\_.py)\<close>

text \<open>
  \<^verbatim>\<open>NbParserConfig\<close> lives in \<^verbatim>\<open>myst_nb.core.config\<close>.  The renderer reads its
  attribute \<^verbatim>\<open>cell_render_key\<close> and indexes it by option name.
\<close>

record nb_parser_config =
  cell_render_key :: string
  options :: pydict

text \<open>
  Modelled from the spec: \<^verbatim>\<open>NbParserConfig.__getitem__\<close>, whose source is missing.
  The docstring of \<^verbatim>\<open>get_cell_render_config\<close> says the lookup raises \<^verbatim>\<open>KeyError\<close> if the
  key is not found, and the specification says the global value "must exist or the lookup
  fails" (MissingGlobalConfig).
\<close>

definition nb_config_getitem :: "nb_parser_config \<Rightarrow> string \<Rightarrow> error + json" where
  "nb_config_getitem cfg k = dict_getitem (options cfg) k"

text \<open>
  \<^verbatim>\<open>DocutilsNbRenderer.get_cell_render_config(cell_metadata, key, nb_key, has_nb_key)\<close>.
  The flag \<^verbatim>\<open>use_nb_level\<close> is computed first, as in the source; the final
  \<^verbatim>\<open>cell_metadata[cell_metadata_key][key]\<close> is two subscriptions.
\<close>

definition use_nb_level :: "string \<Rightarrow> pydict \<Rightarrow> string \<Rightarrow> bool" where
  "use_nb_level cell_metadata_key cell_metadata key =
     (if dict_has cell_metadata cell_metadata_key then
        (case dict_get cell_metadata cell_metadata_key JNull of
           JDict sub \<Rightarrow> (if dict_has sub key then False else True)
         | _ \<Rightarrow> True)
      else True)"

definition get_cell_render_config ::
    "nb_parser_config \<Rightarrow> pydict \<Rightarrow> string \<Rightarrow> string option \<Rightarrow> bool \<Rightarrow> error + json" where
  "get_cell_render_config cfg cell_metadata key nb_key has_nb_key =
     (let cell_metadata_key = cell_render_key cfg in
      if use_nb_level cell_metadata_key cell_metadata key then
        (if \<not> has_nb_key then Inl (KeyError key)
         else nb_config_getitem cfg (case nb_key of Some k \<Rightarrow> k | None \<Rightarrow> key))
      else
        and_then (dict_getitem cell_metadata cell_metadata_key) (\<lambda>sub. py_getitem sub key))"


section \<open>The document tree and the collaborators of the renderer (docutils\_.py)\<close>

text \<open>
  A markdown-it token of a notebook cell, as the renderer reads it:
  \<^verbatim>\<open>token.meta["index"]\<close>, \<^verbatim>\<open>token.meta["metadata"]\<close>,
  \<^verbatim>\<open>token.meta["execution_count"]\<close>, \<^verbatim>\<open>token.meta.get("lexer", None)\<close>,
  \<^verbatim>\<open>token.content\<close> and \<^verbatim>\<open>token_line(token)\<close>.
\<close>

record token =
  tok_index :: nat
  tok_metadata :: pydict
  tok_execution_count :: json
  tok_lexer :: json
  tok_content :: string
  tok_line :: nat

text \<open>The argument of the element renderer's hook \<^verbatim>\<open>render_mime_type\<close>.\<close>

record mime_data =
  md_mime_type :: string
  md_content :: json
  md_cell_metadata :: pydict
  md_output_metadata :: json
  md_cell_index :: nat
  md_output_index :: nat
  md_line :: nat

text \<open>
  Document tree nodes.  A container keeps its \<^verbatim>\<open>nb_element\<close>, its classes, its other
  attributes, the line and source path copied from the token
  (\<^verbatim>\<open>add_line_and_source_path\<close>) and its children.  A literal block records the
  arguments \<^verbatim>\<open>create_highlighted_code_block\<close> received.  A system message is the node a
  warning leaves in the tree: message, subtype and line.  An element is an opaque node
  made by the element renderer, with the line and source path that
  \<^verbatim>\<open>add_line_and_source_path_r\<close> copies to it.
\<close>

datatype 'e node =
    Container string "string list" pydict "nat \<times> string" "'e node list"
  | Literal_block string json json "nat \<times> string"
  | System_message string string nat
  | Figure json nat "'e node list"
  | Element 'e "nat \<times> string"

text \<open>
  The element renderer (\<^verbatim>\<open>NbElementRenderer\<close>) is loaded from a plugin; its hooks are
  parameters.
\<close>

record 'e element_renderer =
  render_stdout :: "json \<Rightarrow> pydict \<Rightarrow> nat \<Rightarrow> nat \<Rightarrow> 'e list"
  render_stderr :: "json \<Rightarrow> pydict \<Rightarrow> nat \<Rightarrow> nat \<Rightarrow> 'e list"
  render_error :: "json \<Rightarrow> pydict \<Rightarrow> nat \<Rightarrow> nat \<Rightarrow> 'e list"
  render_mime_type :: "mime_data \<Rightarrow> 'e list"

text \<open>
  What a \<^verbatim>\<open>DocutilsNbRenderer\<close> holds during one render: the configuration, the cells
  of \<^verbatim>\<open>md_options["notebook"]\<close>, the list that \<^verbatim>\<open>get_mime_priority(builder_name,
  mime_priority_overrides)\<close> of \<^verbatim>\<open>myst_nb.core.render\<close> returns, the element renderer,
  \<^verbatim>\<open>document["source"]\<close>, and Python's \<^verbatim>\<open>str\<close> on values that are not strings.
\<close>

record 'e docutils_nb_renderer =
  nb_config :: nb_parser_config
  notebook_cells :: "pydict list"
  mime_priority :: "string list"
  nb_renderer :: "'e element_renderer"
  document_source :: string
  py_str :: "json \<Rightarrow> string"

definition format_value :: "(json \<Rightarrow> string) \<Rightarrow> json \<Rightarrow> string" where
  "format_value str v = (case v of JStr s \<Rightarrow> s | _ \<Rightarrow> str v)"

definition location :: "'e docutils_nb_renderer \<Rightarrow> token \<Rightarrow> nat \<times> string" where
  "location self token = (tok_line token, document_source self)"

definition stamp :: "'e docutils_nb_renderer \<Rightarrow> token \<Rightarrow> 'e list \<Rightarrow> 'e node list" where
  "stamp self token es = map (\<lambda>e. Element e (location self token)) es"

text \<open>
  Modelled from the spec: \<^verbatim>\<open>create_warning\<close>, a method of the base renderer whose
  source is missing.  The specification has it "emit a single warning node
  (non-fatal) in place of the output"; the node is appended to \<^verbatim>\<open>append_to\<close>.
\<close>

definition create_warning :: "string \<Rightarrow> nat \<Rightarrow> string \<Rightarrow> 'e node list" where
  "create_warning message line subtype = [System_message message subtype line]"

text \<open>
  Modelled from the spec: \<^verbatim>\<open>create_figure_context\<close>, whose source is missing.  The
  specification wraps the rendered nodes in a figure "if the cell/output config supplies
  figure options"; without options the nodes go to the current node as they are.
\<close>

definition create_figure_context :: "json option \<Rightarrow> nat \<Rightarrow> 'e node list \<Rightarrow> 'e node list" where
  "create_figure_context figure_options line ns =
     (case figure_options of None \<Rightarrow> ns | Some opts \<Rightarrow> [Figure opts line ns])"


section \<open>Rendering the outputs of a code cell (docutils\_.py)\<close>

text \<open>
  \<^verbatim>\<open>next(x for x in mime_priority if x in output["data"])\<close>: the generator evaluates
  \<^verbatim>\<open>output["data"]\<close> once per candidate, so an empty priority list never reads it.
  \<^const>\<open>None\<close> is \<^verbatim>\<open>StopIteration\<close>.
\<close>

fun select_mime_type :: "string list \<Rightarrow> json \<Rightarrow> error + string option" where
  "select_mime_type [] output = Inr None"
| "select_mime_type (x # xs) output =
     and_then (py_getitem output ''data'') (\<lambda>data.
     and_then (py_in x data) (\<lambda>found.
       if found then Inr (Some x) else select_mime_type xs output))"

text \<open>
  \<^verbatim>\<open>with suppress(KeyError): figure_options = self.get_cell_render_config(metadata,
  "figure", has_nb_key=False)\<close>: a \<^verbatim>\<open>KeyError\<close> leaves \<^verbatim>\<open>figure_options\<close> at
  \<^verbatim>\<open>None\<close>, any other exception propagates.
\<close>

definition figure_options :: "nb_parser_config \<Rightarrow> pydict \<Rightarrow> error + json option" where
  "figure_options cfg metadata =
     (case get_cell_render_config cfg metadata ''figure'' None False of
        Inr v \<Rightarrow> Inr (Some v)
      | Inl (KeyError k) \<Rightarrow> Inr None
      | Inl e \<Rightarrow> Inl e)"

text \<open>
  The body of the loop of \<^verbatim>\<open>render_nb_cell_code_outputs\<close> for one output: the nodes it
  appends to the current node, or the exception that leaves the loop.
\<close>

definition render_output ::
    "'e docutils_nb_renderer \<Rightarrow> token \<Rightarrow> nat \<Rightarrow> json \<Rightarrow> error + 'e node list" where
  "render_output self token output_index output =
     (let cell_index = tok_index token;
          metadata = tok_metadata token;
          line = tok_line token
      in
      and_then (py_getattr output ''output_type'') (\<lambda>output_type.
      if output_type = JStr ''stream'' then
        and_then (py_getattr output ''name'') (\<lambda>name.
          if name = JStr ''stdout'' then
            Inr (stamp self token (render_stdout (nb_renderer self) output metadata cell_index line))
          else if name = JStr ''stderr'' then
            Inr (stamp self token (render_stderr (nb_renderer self) output metadata cell_index line))
          else Inr [])
      else if output_type = JStr ''error'' then
        Inr (stamp self token (render_error (nb_renderer self) output metadata cell_index line))
      else if output_type = JStr ''display_data'' \<or> output_type = JStr ''execute_result'' then
        and_then (select_mime_type (mime_priority self) output) (\<lambda>selected.
          case selected of
            None \<Rightarrow>
              Inr (create_warning ''No output mime type found from render_priority'' line
                     ''mime_type'')
          | Some mime_type \<Rightarrow>
              and_then (figure_options (nb_config self) metadata) (\<lambda>fig.
              and_then (py_getitem output ''data'') (\<lambda>data.
              and_then (py_getitem data mime_type) (\<lambda>payload.
              and_then (py_get output ''metadata'' (JDict [])) (\<lambda>output_metadata.
                Inr (create_figure_context fig line
                       (stamp self token
                          (render_mime_type (nb_renderer self)
                             \<lparr>md_mime_type = mime_type, md_content = payload,
                              md_cell_metadata = metadata,
                              md_output_metadata = output_metadata,
                              md_cell_index = cell_index, md_output_index = output_index,
                              md_line = line\<rparr>))))))))
      else
        Inr (create_warning
               (''Unsupported output type: '' @ format_value (py_str self) output_type) line
               ''output_type'')))"


text \<open>
  \<^verbatim>\<open>for output_index, output in enumerate(outputs)\<close>, from \<^verbatim>\<open>output_index\<close> on: the
  nodes of the outputs are appended to the current node one output after the other.
\<close>

fun render_outputs_from ::
    "'e docutils_nb_renderer \<Rightarrow> token \<Rightarrow> nat \<Rightarrow> json list \<Rightarrow> error + 'e node list" where
  "render_outputs_from self token output_index [] = Inr []"
| "render_outputs_from self token output_index (output # outputs) =
     and_then (render_output self token output_index output) (\<lambda>ns.
     and_then (render_outputs_from self token (Suc output_index) outputs) (\<lambda>ms.
       Inr (ns @ ms)))"

text \<open>\<^verbatim>\<open>self.md_options["notebook"]["cells"][cell_index].get("outputs", [])\<close>.\<close>

definition cell_outputs :: "'e docutils_nb_renderer \<Rightarrow> nat \<Rightarrow> error + json" where
  "cell_outputs self cell_index =
     (if cell_index < length (notebook_cells self)
      then Inr (dict_get (notebook_cells self ! cell_index) ''outputs'' (JList []))
      else Inl IndexError)"

definition render_nb_cell_code_outputs ::
    "'e docutils_nb_renderer \<Rightarrow> token \<Rightarrow> error + 'e node list" where
  "render_nb_cell_code_outputs self token =
     and_then (cell_outputs self (tok_index token)) (\<lambda>outputs.
     and_then (py_iter outputs) (\<lambda>outs.
       render_outputs_from self token 0 outs))"


section \<open>Rendering a code cell (docutils\_.py)\<close>

text \<open>
  \<^verbatim>\<open>tags = token.meta["metadata"].get("tags", [])\<close>, and the two flags of
  \<^verbatim>\<open>render_nb_cell_code\<close>.  Python's \<^verbatim>\<open>or\<close> yields its first truthy operand and
  evaluates no further, so the value of the configuration option is returned as it is when
  it is truthy, and the tags are looked at only when it is not.
\<close>

definition cell_tags :: "pydict \<Rightarrow> json" where
  "cell_tags metadata = dict_get metadata ''tags'' (JList [])"

definition remove_input :: "nb_parser_config \<Rightarrow> pydict \<Rightarrow> error + json" where
  "remove_input cfg metadata =
     and_then (get_cell_render_config cfg metadata ''remove_code_source'' None True) (\<lambda>c.
       if py_truthy c then Inr c
       else and_then (py_in ''remove_input'' (cell_tags metadata)) (\<lambda>a.
         if a then Inr (JBool True)
         else and_then (py_in ''remove-input'' (cell_tags metadata)) (\<lambda>b.
           Inr (JBool b))))"

definition remove_output :: "nb_parser_config \<Rightarrow> pydict \<Rightarrow> error + json" where
  "remove_output cfg metadata =
     and_then (get_cell_render_config cfg metadata ''remove_code_outputs'' None True) (\<lambda>c.
       if py_truthy c then Inr c
       else and_then (py_in ''remove_output'' (cell_tags metadata)) (\<lambda>a.
         if a then Inr (JBool True)
         else and_then (py_in ''remove-output'' (cell_tags metadata)) (\<lambda>b.
           Inr (JBool b))))"

text \<open>
  \<^verbatim>\<open>for tag in tags: classes.append(f"tag_{tag.replace(' ', '_')}")\<close>: only a string has
  \<^verbatim>\<open>replace\<close>.
\<close>

fun tag_class :: "json \<Rightarrow> error + string" where
  "tag_class (JStr t) = Inr (''tag_'' @ map (\<lambda>c. if c = CHR '' '' then CHR ''_'' else c) t)"
| "tag_class v = Inl (AttributeError ''replace'')"

fun tag_classes :: "json list \<Rightarrow> error + string list" where
  "tag_classes [] = Inr []"
| "tag_classes (t # ts) =
     and_then (tag_class t) (\<lambda>c. and_then (tag_classes ts) (\<lambda>cs. Inr (c # cs)))"

definition render_nb_cell_code_source ::
    "'e docutils_nb_renderer \<Rightarrow> token \<Rightarrow> error + 'e node" where
  "render_nb_cell_code_source self token =
     and_then (get_cell_render_config (nb_config self) (tok_metadata token)
                 ''number_source_lines'' None True) (\<lambda>number_lines.
       Inr (Literal_block (tok_content token) (tok_lexer token) number_lines
              (location self token)))"

text \<open>
  \<^verbatim>\<open>render_nb_cell_code\<close>: the nodes appended to the current node.  A
  \<^verbatim>\<open>current_node_context(node, append=True)\<close> block appends \<^verbatim>\<open>node\<close> and makes it the
  current node for its body, so what the body appends becomes the children of
  \<^verbatim>\<open>node\<close>.
\<close>

definition render_nb_cell_code ::
    "'e docutils_nb_renderer \<Rightarrow> token \<Rightarrow> error + 'e node list" where
  "render_nb_cell_code self token =
     (let cell_index = tok_index token;
          metadata = tok_metadata token;
          tags = cell_tags metadata
      in
      and_then (remove_input (nb_config self) metadata) (\<lambda>rm_input.
      and_then (remove_output (nb_config self) metadata) (\<lambda>rm_output.
      if py_truthy rm_input \<and> py_truthy rm_output then Inr []
      else
        and_then (py_iter tags) (\<lambda>ts.
        and_then (tag_classes ts) (\<lambda>tcs.
        let classes = ''cell'' # tcs in
        and_then (if \<not> py_truthy rm_input
                  then and_then (render_nb_cell_code_source self token) (\<lambda>n.
                         Inr [Container ''cell_code_source'' [''cell_input''] []
                                (location self token) [n]])
                  else Inr []) (\<lambda>cell_input.
        and_then (cell_outputs self cell_index) (\<lambda>has_outputs.
        and_then (if \<not> py_truthy rm_output \<and> py_truthy has_outputs
                  then and_then (render_nb_cell_code_outputs self token) (\<lambda>ns.
                         Inr [Container ''cell_code_output'' [''cell_output''] []
                                (location self token) ns])
                  else Inr []) (\<lambda>cell_output.
          Inr [Container ''cell_code'' classes
                 [(''cell_index'', JInt (int cell_index)),
                  (''exec_count'', tok_execution_count token),
                  (''cell_metadata'', JDict metadata)]
                 (location self token) (cell_input @ cell_output)]))))))))"


section \<open>The cell loop of the notebook parser (parser.py)\<close>

text \<open>
  The nodes \<^verbatim>\<open>NotebookParser.parse\<close> builds.  \<^verbatim>\<open>CellNode\<close>, \<^verbatim>\<open>CellInputNode\<close>,
  \<^verbatim>\<open>CellOutputNode\<close> and \<^verbatim>\<open>CellOutputBundleNode\<close> are the classes of parser.py;
  \<^verbatim>\<open>Myst\<close> is a node the markdown renderer made.
\<close>

datatype 'm sphinx_node =
    CellNode "string list" json "'m sphinx_node list"
  | CellInputNode "string list" "'m sphinx_node list"
  | CellOutputNode "string list" "'m sphinx_node list"
  | CellOutputBundleNode json
  | literal_block json
  | container "string list" "'m sphinx_node list"
  | Myst 'm

text \<open>\<^verbatim>\<open>cell.metadata.get("tags", [])\<close> on a notebook cell.\<close>

definition nb_cell_tags :: "pydict \<Rightarrow> error + json" where
  "nb_cell_tags cell =
     and_then (py_getattr (JDict cell) ''metadata'') (\<lambda>m. py_get m ''tags'' (JList []))"

text \<open>
  One round of \<^verbatim>\<open>for cell in ntbk.cells\<close>: the units the cell adds to the document, in
  the order they are added.  \<^verbatim>\<open>render_myst\<close> stands for \<^verbatim>\<open>tokenize\<close> followed by
  \<^verbatim>\<open>renderer.render\<close> on each token (both of \<^verbatim>\<open>myst_parser\<close>), applied to the source
  with its closing newline; \<^verbatim>\<open>str\<close> is Python's \<^verbatim>\<open>str\<close> on values that are not strings.
\<close>

definition parse_cell ::
    "(string \<Rightarrow> 'm list) \<Rightarrow> (json \<Rightarrow> string) \<Rightarrow> pydict \<Rightarrow> error + 'm sphinx_node list" where
  "parse_cell render_myst str cell =
     and_then (dict_getitem cell ''source'') (\<lambda>src.
     and_then (py_len src) (\<lambda>n.
     if n = 0 then Inr []
     else
       and_then (nb_cell_tags cell) (\<lambda>tags.
       and_then (py_iter tags) (\<lambda>ts.
       let classes = ''cell'' # map (\<lambda>tag. ''tag_'' @ format_value str tag) ts in
       and_then (dict_getitem cell ''cell_type'') (\<lambda>cell_type.
       if cell_type = JStr ''markdown'' then
         (case src of
            JStr source \<Rightarrow>
              (let source' = (if suffix [CHR 0x0A] source then source
                              else source @ [CHR 0x0A]);
                   myst_ast = map Myst (render_myst source')
               in and_then (py_in ''hide_input'' tags) (\<lambda>hide.
                    if hide then Inr [container [''toggle''] myst_ast] else Inr myst_ast))
          | _ \<Rightarrow> Inl (AttributeError ''endswith''))
       else if cell_type = JStr ''code'' then
         and_then (dict_getitem cell ''outputs'') (\<lambda>outputs.
           Inr [CellNode classes cell_type
                  [CellInputNode [''cell_input''] [literal_block src],
                   CellOutputNode [''cell_output''] [CellOutputBundleNode outputs]]])
       else Inr [])))))"

fun parse_cells ::
    "(string \<Rightarrow> 'm list) \<Rightarrow> (json \<Rightarrow> string) \<Rightarrow> pydict list \<Rightarrow> error + 'm sphinx_node list" where
  "parse_cells render_myst str [] = Inr []"
| "parse_cells render_myst str (cell # cells) =
     and_then (parse_cell render_myst str cell) (\<lambda>ns.
     and_then (parse_cells render_myst str cells) (\<lambda>ms. Inr (ns @ ms)))"


section \<open>A small notebook for the worked examples\<close>

text \<open>
  The configuration leaves both removal options and line numbering off; the element
  renderer returns one element per call that names the hook and keeps the payload; the
  priority list is \<^verbatim>\<open>["text/html", "text/plain"]\<close>; the markdown renderer returns its
  source as the one node.  The notebook has a heading cell, a code cell with three
  outputs, and a code cell whose source is empty.
\<close>

definition example_config :: nb_parser_config where
  "example_config =
     \<lparr>cell_render_key = ''mystnb'',
      options = [(''remove_code_source'', JBool False),
                 (''remove_code_outputs'', JBool False),
                 (''number_source_lines'', JBool False)]\<rparr>"

definition example_hooks :: "(string \<times> json) element_renderer" where
  "example_hooks =
     \<lparr>render_stdout = (\<lambda>output metadata cell_index line. [(''stdout'', output)]),
      render_stderr = (\<lambda>output metadata cell_index line. [(''stderr'', output)]),
      render_error = (\<lambda>output metadata cell_index line. [(''error'', output)]),
      render_mime_type = (\<lambda>d. [(md_mime_type d, md_content d)])\<rparr>"

definition example_str :: "json \<Rightarrow> string" where
  "example_str v = ''?''"

definition example_renderer :: "pydict list \<Rightarrow> (string \<times> json) docutils_nb_renderer" where
  "example_renderer cells =
     \<lparr>nb_config = example_config, notebook_cells = cells,
      mime_priority = [''text/html'', ''text/plain''], nb_renderer = example_hooks,
      document_source = ''nb.ipynb'', py_str = example_str\<rparr>"

definition example_token :: "pydict \<Rightarrow> token" where
  "example_token metadata =
     \<lparr>tok_index = 0, tok_metadata = metadata, tok_execution_count = JInt 1,
      tok_lexer = JNull, tok_content = ''1+1'', tok_line = 3\<rparr>"

definition execute_result_42 :: json where
  "execute_result_42 =
     JDict [(''output_type'', JStr ''execute_result''),
            (''data'', JDict [(''text/plain'', JStr ''42'')]),
            (''metadata'', JDict [])]"

definition display_data_latex :: json where
  "display_data_latex =
     JDict [(''output_type'', JStr ''display_data''),
            (''data'', JDict [(''text/latex'', JStr ''x'')]),
            (''metadata'', JDict [])]"

definition stream_stdout :: json where
  "stream_stdout =
     JDict [(''output_type'', JStr ''stream''), (''name'', JStr ''stdout''),
            (''text'', JStr ''hi'')]"

definition stream_stdlog :: json where
  "stream_stdlog =
     JDict [(''output_type'', JStr ''stream''), (''name'', JStr ''stdlog''),
            (''text'', JStr ''hi'')]"

definition update_display_data :: json where
  "update_display_data =
     JDict [(''output_type'', JStr ''update_display_data''),
            (''data'', JDict [(''text/plain'', JStr ''42'')])]"


definition example_render_myst :: "string \<Rightarrow> string list" where
  "example_render_myst source = [source]"

definition title_cell :: pydict where
  "title_cell =
     [(''cell_type'', JStr ''markdown''), (''source'', JStr ''# Title''),
      (''metadata'', JDict [])]"

definition code_cell :: pydict where
  "code_cell =
     [(''cell_type'', JStr ''code''), (''source'', JStr ''1+1''),
      (''metadata'', JDict []),
      (''outputs'', JList [stream_stdout, stream_stdlog, execute_result_42])]"

definition empty_code_cell :: pydict where
  "empty_code_cell =
     [(''cell_type'', JStr ''code''), (''source'', JStr []),
      (''metadata'', JDict []),
      (''outputs'', JList [execute_result_42])]"


section \<open>Auxiliary facts\<close>

lemma and_then_simps:
  "and_then (Inl e) f = Inl e"
  "and_then (Inr v) f = f v"
  by (simp_all add: and_then_def)

lemma select_mime_type_find:
  "py_getitem output ''data'' = Inr (JDict bundle) \<Longrightarrow>
   select_mime_type prio output = Inr (find (dict_has bundle) prio)"
  by (induction prio) (simp_all add: and_then_simps)

lemma dict_has_keys: "dict_has d k \<longleftrightarrow> k \<in> fst ` set d"
  by (simp add: dict_has_def map_of_eq_None_iff)

lemma use_nb_level_iff:
  "use_nb_level k md key \<longleftrightarrow>
     (case map_of md k of Some (JDict sub) \<Rightarrow> map_of sub key = None | _ \<Rightarrow> True)"
  by (auto simp: use_nb_level_def dict_has_def dict_get_def split: option.splits json.splits)

lemma get_cell_render_config_cell_level:
  "map_of md (cell_render_key cfg) = Some (JDict sub) \<Longrightarrow> map_of sub key = Some v \<Longrightarrow>
   get_cell_render_config cfg md key nb_key has_nb_key = Inr v"
  by (simp add: get_cell_render_config_def use_nb_level_iff and_then_simps dict_getitem_def)

lemma get_cell_render_config_nb_level:
  "(case map_of md (cell_render_key cfg) of
      Some (JDict sub) \<Rightarrow> map_of sub key = None | _ \<Rightarrow> True) \<Longrightarrow>
   get_cell_render_config cfg md key nb_key has_nb_key =
     (if \<not> has_nb_key then Inl (KeyError key)
      else nb_config_getitem cfg (case nb_key of Some k \<Rightarrow> k | None \<Rightarrow> key))"
  by (simp add: get_cell_render_config_def use_nb_level_iff)

lemma figure_options_total: "\<exists>fig. figure_options cfg metadata = Inr fig"
proof (cases "case map_of metadata (cell_render_key cfg) of
      Some (JDict sub) \<Rightarrow> map_of sub ''figure'' = None | _ \<Rightarrow> True")
  case True
  then show ?thesis
    by (simp add: figure_options_def get_cell_render_config_nb_level)
next
  case False
  then obtain sub v where "map_of metadata (cell_render_key cfg) = Some (JDict sub)"
      "map_of sub ''figure'' = Some v"
    by (auto split: option.splits json.splits)
  then show ?thesis
    by (simp add: figure_options_def get_cell_render_config_cell_level)
qed

lemma render_outputs_from_append:
  "render_outputs_from self token i (xs @ ys) =
     and_then (render_outputs_from self token i xs) (\<lambda>a.
     and_then (render_outputs_from self token (i + length xs) ys) (\<lambda>b. Inr (a @ b)))"
proof (induction xs arbitrary: i)
  case Nil
  show ?case by (cases "render_outputs_from self token i ys") (simp_all add: and_then_simps)
next
  case (Cons x xs)
  show ?case
    by (cases "render_output self token i x"; cases "render_outputs_from self token (Suc i) xs";
        cases "render_outputs_from self token (Suc (i + length xs)) ys")
       (simp_all add: and_then_simps Cons.IH)
qed

lemma py_getattr_dict:
  "py_getattr output k = Inr v \<Longrightarrow> \<exists>d. output = JDict d \<and> map_of d k = Some v"
  by (cases "output") (auto split: option.splits)

lemma render_output_display:
  assumes "py_getattr output ''output_type'' = Inr t"
      and "t = JStr ''display_data'' \<or> t = JStr ''execute_result''"
  shows "render_output self token k output =
     and_then (select_mime_type (mime_priority self) output) (\<lambda>selected.
          case selected of
            None \<Rightarrow>
              Inr (create_warning ''No output mime type found from render_priority''
                     (tok_line token) ''mime_type'')
          | Some mime_type \<Rightarrow>
              and_then (figure_options (nb_config self) (tok_metadata token)) (\<lambda>fig.
              and_then (py_getitem output ''data'') (\<lambda>data.
              and_then (py_getitem data mime_type) (\<lambda>payload.
              and_then (py_get output ''metadata'' (JDict [])) (\<lambda>output_metadata.
                Inr (create_figure_context fig (tok_line token)
                       (stamp self token
                          (render_mime_type (nb_renderer self)
                             \<lparr>md_mime_type = mime_type, md_content = payload,
                              md_cell_metadata = tok_metadata token,
                              md_output_metadata = output_metadata,
                              md_cell_index = tok_index token, md_output_index = k,
                              md_line = tok_line token\<rparr>))))))))"
  using assms by (auto simp: render_output_def and_then_simps Let_def)

lemma and_then_Inr_iff:
  "and_then m f = Inr r \<longleftrightarrow> (\<exists>v. m = Inr v \<and> f v = Inr r)"
  by (cases m) (simp_all add: and_then_simps)

lemma render_outputs_from_middle:
  "render_output self token (length pre) output = Inr ws \<Longrightarrow>
   render_outputs_from self token 0 (pre @ output # rest) =
     and_then (render_outputs_from self token 0 pre) (\<lambda>a.
     and_then (render_outputs_from self token (Suc (length pre)) rest) (\<lambda>b.
       Inr (a @ ws @ b)))"
  by (cases "render_outputs_from self token 0 pre";
      cases "render_outputs_from self token (Suc (length pre)) rest")
     (simp_all add: render_outputs_from_append and_then_simps)

lemma render_outputs_from_in_order:
  "render_outputs_from self token i outs = Inr ns \<Longrightarrow>
   \<exists>nss. length nss = length outs
       \<and> (\<forall>k < length outs. render_output self token (i + k) (outs ! k) = Inr (nss ! k))
       \<and> ns = concat nss"
proof (induction outs arbitrary: i ns)
  case Nil
  then show ?case by simp
next
  case (Cons x xs)
  from Cons.prems obtain n1 ms where
      n1: "render_output self token i x = Inr n1"
    and ms: "render_outputs_from self token (Suc i) xs = Inr ms"
    and ns: "ns = n1 @ ms"
    by (auto simp: and_then_Inr_iff)
  from Cons.IH [OF ms] obtain nss where
      len: "length nss = length xs"
    and each: "\<forall>k < length xs. render_output self token (Suc i + k) (xs ! k) = Inr (nss ! k)"
    and cat: "ms = concat nss"
    by blast
  have "\<forall>k < length (x # xs).
          render_output self token (i + k) ((x # xs) ! k) = Inr ((n1 # nss) ! k)"
  proof (intro allI impI)
    fix k assume "k < length (x # xs)"
    then show "render_output self token (i + k) ((x # xs) ! k) = Inr ((n1 # nss) ! k)"
      using n1 each by (cases k) simp_all
  qed
  moreover have "length (n1 # nss) = length (x # xs)" using len by simp
  moreover have "ns = concat (n1 # nss)" using ns cat by simp
  ultimately show ?case by blast
qed

lemma remove_flag_list:
  assumes "get_cell_render_config cfg metadata opt None True = Inr c"
      and "cell_tags metadata = JList tags"
  shows "and_then (get_cell_render_config cfg metadata opt None True) (\<lambda>c.
       if py_truthy c then Inr c
       else and_then (py_in tag1 (cell_tags metadata)) (\<lambda>a.
         if a then Inr (JBool True)
         else and_then (py_in tag2 (cell_tags metadata)) (\<lambda>b.
           Inr (JBool b))))
    = Inr (if py_truthy c then c else JBool (JStr tag1 \<in> set tags \<or> JStr tag2 \<in> set tags))"
  using assms by (simp add: and_then_simps)

lemma parse_cells_in_order:
  "parse_cells R S cells = Inr ns \<Longrightarrow>
   \<exists>nss. length nss = length cells
       \<and> (\<forall>k < length cells. parse_cell R S (cells ! k) = Inr (nss ! k))
       \<and> ns = concat nss"
proof (induction cells arbitrary: ns)
  case Nil
  then show ?case by simp
next
  case (Cons c cs)
  from Cons.prems obtain n1 ms where
      n1: "parse_cell R S c = Inr n1"
    and ms: "parse_cells R S cs = Inr ms"
    and ns: "ns = n1 @ ms"
    by (auto simp: and_then_Inr_iff)
  from Cons.IH [OF ms] obtain nss where
      len: "length nss = length cs"
    and each: "\<forall>k < length cs. parse_cell R S (cs ! k) = Inr (nss ! k)"
    and cat: "ms = concat nss"
    by blast
  have "\<forall>k < length (c # cs). parse_cell R S ((c # cs) ! k) = Inr ((n1 # nss) ! k)"
  proof (intro allI impI)
    fix k assume "k < length (c # cs)"
    then show "parse_cell R S ((c # cs) ! k) = Inr ((n1 # nss) ! k)"
      using n1 each by (cases k) simp_all
  qed
  moreover have "length (n1 # nss) = length (c # cs)" using len by simp
  moreover have "ns = concat (n1 # nss)" using ns cat by simp
  ultimately show ?case by blast
qed

lemma parse_cell_empty_source:
  "dict_getitem cell ''source'' = Inr src \<Longrightarrow> py_len src = Inr 0 \<Longrightarrow>
   parse_cell R S cell = Inr []"
  by (simp add: parse_cell_def and_then_simps)

lemma parse_cell_code:
  assumes "parse_cell R S cell = Inr ns"
      and "dict_getitem cell ''source'' = Inr src" and "py_len src = Inr n" and "0 < n"
      and "dict_getitem cell ''cell_type'' = Inr (JStr ''code'')"
  shows "\<exists>classes outputs.
           ns = [CellNode classes (JStr ''code'')
                   [CellInputNode [''cell_input''] [literal_block src],
                    CellOutputNode [''cell_output''] [CellOutputBundleNode outputs]]]"
  using assms
  by (auto simp: parse_cell_def and_then_simps and_then_Inr_iff Let_def)

lemma parse_cell_markdown:
  assumes "parse_cell R S cell = Inr ns"
      and "dict_getitem cell ''source'' = Inr src" and "py_len src = Inr n" and "0 < n"
      and "dict_getitem cell ''cell_type'' = Inr (JStr ''markdown'')"
  shows "\<exists>source. src = JStr source
           \<and> (ns = map Myst (R (if suffix [CHR 0x0A] source then source
                                  else source @ [CHR 0x0A]))
              \<or> ns = [container [''toggle'']
                        (map Myst (R (if suffix [CHR 0x0A] source then source
                                      else source @ [CHR 0x0A])))])"
proof -
  from assms obtain tags where
    body: "(case src of
            JStr source \<Rightarrow>
              (let source' = (if suffix [CHR 0x0A] source then source
                              else source @ [CHR 0x0A]);
                   myst_ast = map Myst (R source')
               in and_then (py_in ''hide_input'' tags) (\<lambda>hide.
                    if hide then Inr [container [''toggle''] myst_ast] else Inr myst_ast))
          | _ \<Rightarrow> Inl (AttributeError ''endswith'')) = Inr ns"
    by (auto simp: parse_cell_def and_then_simps and_then_Inr_iff Let_def)
  then obtain source where src: "src = JStr source"
    by (cases src) simp_all
  show ?thesis
  proof (cases "py_in ''hide_input'' tags")
    case (Inl e)
    with body src show ?thesis by (simp add: and_then_simps Let_def)
  next
    case (Inr hide)
    with body src show ?thesis
      by (cases hide) (auto simp: and_then_simps Let_def)
  qed
qed

lemma render_nb_cell_code_shape:
  assumes "render_nb_cell_code self token = Inr ns"
  shows "\<exists>a b. remove_input (nb_config self) (tok_metadata token) = Inr a
             \<and> remove_output (nb_config self) (tok_metadata token) = Inr b
             \<and> (ns = [] \<longleftrightarrow> py_truthy a \<and> py_truthy b)
             \<and> (ns \<noteq> [] \<longrightarrow>
                  (\<exists>classes children.
                     ns = [Container ''cell_code'' classes
                             [(''cell_index'', JInt (int (tok_index token))),
                              (''exec_count'', tok_execution_count token),
                              (''cell_metadata'', JDict (tok_metadata token))]
                             (location self token) children]))"
proof -
  from assms obtain a b where
      a: "remove_input (nb_config self) (tok_metadata token) = Inr a"
    and b: "remove_output (nb_config self) (tok_metadata token) = Inr b"
    by (auto simp: render_nb_cell_code_def and_then_Inr_iff Let_def)
  show ?thesis
  proof (cases "py_truthy a \<and> py_truthy b")
    case True
    then have "ns = []"
      using assms a b by (simp add: render_nb_cell_code_def and_then_simps)
    with a b True show ?thesis by simp
  next
    case False
    then have "(if py_truthy a \<and> py_truthy b then x else y) = y" for x y :: "error + 'a node list"
      by auto
    with assms a b have "\<exists>classes children.
                 ns = [Container ''cell_code'' classes
                         [(''cell_index'', JInt (int (tok_index token))),
                          (''exec_count'', tok_execution_count token),
                          (''cell_metadata'', JDict (tok_metadata token))]
                         (location self token) children]"
      by (auto simp: render_nb_cell_code_def and_then_simps and_then_Inr_iff Let_def)
    with a b False show ?thesis by auto
  qed
qed

lemma render_nb_cell_code_outputs_in_order:
  assumes "render_nb_cell_code_outputs self token = Inr ns"
  shows "\<exists>outputs outs nss.
             cell_outputs self (tok_index token) = Inr outputs \<and> py_iter outputs = Inr outs
           \<and> length nss = length outs
           \<and> (\<forall>k < length outs. render_output self token k (outs ! k) = Inr (nss ! k))
           \<and> ns = concat nss"
proof -
  from assms obtain outputs outs where
      o: "cell_outputs self (tok_index token) = Inr outputs" "py_iter outputs = Inr outs"
    and r: "render_outputs_from self token 0 outs = Inr ns"
    by (auto simp: render_nb_cell_code_outputs_def and_then_Inr_iff)
  from render_outputs_from_in_order [OF r] o show ?thesis by auto
qed

lemmas example_defs = example_config_def example_hooks_def example_renderer_def
  example_token_def execute_result_42_def display_data_latex_def stream_stdout_def
  stream_stdlog_def update_display_data_def example_str_def example_render_myst_def
  title_cell_def code_cell_def empty_code_cell_def

lemmas eval_defs = dict_getitem_def dict_has_def dict_get_def render_output_def
  figure_options_def get_cell_render_config_def use_nb_level_def nb_config_getitem_def
  create_figure_context_def create_warning_def stamp_def location_def format_value_def
  cell_tags_def


section \<open>Selecting a mime type\<close>

text \<open>
  Claim C1.  Take a \<^verbatim>\<open>display_data\<close> or \<^verbatim>\<open>execute_result\<close> output whose
  \<^verbatim>\<open>data\<close> is a dictionary, and a priority list that has an entry among its keys.
  Then the selected mime type is the entry at the least index \<^verbatim>\<open>i\<close> of the priority
  list that is a key of \<^verbatim>\<open>data\<close>; any output whose \<^verbatim>\<open>data\<close> has the same key set
  selects the same entry (the choice does not depend on the order or the values of the
  bundle); and the output is rendered by \<^verbatim>\<open>render_mime_type\<close> applied to that mime type
  and its payload.
\<close>

theorem mime_type_selected_is_earliest:
  assumes "py_getattr outp ''output_type'' = Inr t"
      and "t = JStr ''display_data'' \<or> t = JStr ''execute_result''"
      and "py_getitem outp ''data'' = Inr (JDict mimes)"
      and "\<exists>x \<in> set (mime_priority self). dict_has mimes x"
  shows "\<exists>i < length (mime_priority self).
           dict_has mimes (mime_priority self ! i)
         \<and> (\<forall>j < i. \<not> dict_has mimes (mime_priority self ! j))
         \<and> select_mime_type (mime_priority self) outp = Inr (Some (mime_priority self ! i))
         \<and> (\<forall>output' mimes'. py_getitem output' ''data'' = Inr (JDict mimes')
               \<and> fst ` set mimes' = fst ` set mimes
               \<longrightarrow> select_mime_type (mime_priority self) output'
                   = Inr (Some (mime_priority self ! i)))
         \<and> (\<exists>fig payload output_metadata.
               map_of mimes (mime_priority self ! i) = Some payload
             \<and> render_output self token k outp =
                 Inr (create_figure_context fig (tok_line token)
                        (stamp self token
                           (render_mime_type (nb_renderer self)
                              \<lparr>md_mime_type = mime_priority self ! i, md_content = payload,
                               md_cell_metadata = tok_metadata token,
                               md_output_metadata = output_metadata,
                               md_cell_index = tok_index token, md_output_index = k,
                               md_line = tok_line token\<rparr>))))"
proof -
  let ?prio = "mime_priority self"
  from assms(4) obtain m where m: "find (dict_has mimes) ?prio = Some m"
    by (cases "find (dict_has mimes) ?prio") (auto simp: find_None_iff)
  then obtain i where i: "i < length ?prio" "dict_has mimes (?prio ! i)" "m = ?prio ! i"
      "\<forall>j<i. \<not> dict_has mimes (?prio ! j)"
    by (auto simp: find_Some_iff)
  have sel: "select_mime_type ?prio outp = Inr (Some (?prio ! i))"
    using select_mime_type_find [OF assms(3), of ?prio] m i(3) by simp
  have det: "select_mime_type ?prio output' = Inr (Some (?prio ! i))"
    if "py_getitem output' ''data'' = Inr (JDict mimes')" "fst ` set mimes' = fst ` set mimes"
    for output' mimes'
  proof -
    have "dict_has mimes' = dict_has mimes"
      using that(2) by (auto simp: dict_has_keys fun_eq_iff)
    then show ?thesis
      using select_mime_type_find [OF that(1), of ?prio] m i(3) by simp
  qed
  obtain payload where payload: "map_of mimes (?prio ! i) = Some payload"
    using i(2) by (auto simp: dict_has_def)
  obtain fig where fig: "figure_options (nb_config self) (tok_metadata token) = Inr fig"
    using figure_options_total by blast
  obtain d where d: "outp = JDict d"
    using py_getattr_dict [OF assms(1)] by blast
  have "render_output self token k outp =
          Inr (create_figure_context fig (tok_line token)
                 (stamp self token
                    (render_mime_type (nb_renderer self)
                       \<lparr>md_mime_type = ?prio ! i, md_content = payload,
                        md_cell_metadata = tok_metadata token,
                        md_output_metadata = dict_get d ''metadata'' (JDict []),
                        md_cell_index = tok_index token, md_output_index = k,
                        md_line = tok_line token\<rparr>)))"
    unfolding render_output_display [OF assms(1,2)]
    using sel fig assms(3) payload d
    by (simp add: and_then_simps dict_getitem_def)
  with i sel det payload show ?thesis by blast
qed

theorem mime_type_selected_is_earliest_witness:
  "py_getattr execute_result_42 ''output_type'' = Inr (JStr ''execute_result'')
   \<and> py_getitem execute_result_42 ''data'' = Inr (JDict [(''text/plain'', JStr ''42'')])
   \<and> (\<exists>x \<in> set (mime_priority (example_renderer [])). dict_has [(''text/plain'', JStr ''42'')] x)
   \<and> select_mime_type [''text/html'', ''text/plain''] execute_result_42 = Inr (Some ''text/plain'')
   \<and> render_output (example_renderer []) (example_token []) 0 execute_result_42
       = Inr [Element (''text/plain'', JStr ''42'') (3, ''nb.ipynb'')]"
  using mime_type_selected_is_earliest [of execute_result_42 "JStr ''execute_result''"
      "[(''text/plain'', JStr ''42'')]" "example_renderer []" "example_token []" 0]
  by (simp add: example_defs eval_defs and_then_simps)

text \<open>
  Claim C2.  Take a \<^verbatim>\<open>display_data\<close> or \<^verbatim>\<open>execute_result\<close> output whose \<^verbatim>\<open>data\<close> is a
  dictionary none of whose keys is in the priority list.  Rendering it gives exactly one
  node, the warning \<^verbatim>\<open>No output mime type found from render_priority\<close>, and no
  exception; and in a cell's output list the loop goes on: the nodes of the outputs before
  it, the warning, and the nodes of the outputs after it (still numbered by their own
  position) are appended in this order, an exception arising only from those other
  outputs.
\<close>

theorem no_renderable_mime_type_warns:
  assumes "py_getattr outp ''output_type'' = Inr t"
      and "t = JStr ''display_data'' \<or> t = JStr ''execute_result''"
      and "py_getitem outp ''data'' = Inr (JDict mimes)"
      and "\<forall>x \<in> set (mime_priority self). \<not> dict_has mimes x"
  shows "render_output self token k outp =
           Inr [System_message ''No output mime type found from render_priority''
                  ''mime_type'' (tok_line token)]
       \<and> render_outputs_from self token 0 (pre @ outp # rest) =
           and_then (render_outputs_from self token 0 pre) (\<lambda>a.
           and_then (render_outputs_from self token (Suc (length pre)) rest) (\<lambda>b.
             Inr (a @ [System_message ''No output mime type found from render_priority''
                         ''mime_type'' (tok_line token)] @ b)))"
proof -
  have none: "find (dict_has mimes) (mime_priority self) = None"
    using assms(4) by (simp add: find_None_iff)
  have one: "render_output self token j outp =
           Inr [System_message ''No output mime type found from render_priority''
                  ''mime_type'' (tok_line token)]" for j
    unfolding render_output_display [OF assms(1,2)]
    using select_mime_type_find [OF assms(3), of "mime_priority self"] none
    by (simp add: and_then_simps create_warning_def)
  show ?thesis
    using one [of k] render_outputs_from_middle [OF one [of "length pre"], of rest]
    by simp
qed

theorem no_renderable_mime_type_warns_witness:
  "py_getattr display_data_latex ''output_type'' = Inr (JStr ''display_data'')
   \<and> py_getitem display_data_latex ''data'' = Inr (JDict [(''text/latex'', JStr ''x'')])
   \<and> mime_priority (example_renderer []) = [''text/html'', ''text/plain'']
   \<and> \<not> dict_has [(''text/latex'', JStr ''x'')] ''text/html''
   \<and> \<not> dict_has [(''text/latex'', JStr ''x'')] ''text/plain''
   \<and> render_output (example_renderer []) (example_token []) 1 display_data_latex =
     Inr [System_message ''No output mime type found from render_priority'' ''mime_type'' 3]
   \<and> render_outputs_from (example_renderer []) (example_token []) 0
       [stream_stdout, display_data_latex, execute_result_42] =
     Inr [Element (''stdout'', stream_stdout) (3, ''nb.ipynb''),
          System_message ''No output mime type found from render_priority'' ''mime_type'' 3,
          Element (''text/plain'', JStr ''42'') (3, ''nb.ipynb'')]"
  using no_renderable_mime_type_warns [where outp = display_data_latex
      and t = "JStr ''display_data''" and mimes = "[(''text/latex'', JStr ''x'')]"
      and self = "example_renderer []" and token = "example_token []" and k = 1
      and pre = "[stream_stdout]" and rest = "[execute_result_42]"]
  by (simp add: example_defs eval_defs and_then_simps)


section \<open>Outputs that are not rendered\<close>

text \<open>
  Claim C7.  An output whose \<^verbatim>\<open>output_type\<close> is none of \<^verbatim>\<open>stream\<close>, \<^verbatim>\<open>error\<close>,
  \<^verbatim>\<open>display_data\<close>, \<^verbatim>\<open>execute_result\<close> is rendered as exactly one warning node,
  \<^verbatim>\<open>Unsupported output type: ...\<close>, without an exception, and the loop continues with
  the outputs that follow it.
\<close>

theorem unsupported_output_type_warns:
  assumes "py_getattr outp ''output_type'' = Inr t"
      and "t \<notin> {JStr ''stream'', JStr ''error'', JStr ''display_data'', JStr ''execute_result''}"
  shows "render_output self token k outp =
           Inr [System_message (''Unsupported output type: '' @ format_value (py_str self) t)
                  ''output_type'' (tok_line token)]
       \<and> render_outputs_from self token 0 (pre @ outp # rest) =
           and_then (render_outputs_from self token 0 pre) (\<lambda>a.
           and_then (render_outputs_from self token (Suc (length pre)) rest) (\<lambda>b.
             Inr (a @ [System_message
                         (''Unsupported output type: '' @ format_value (py_str self) t)
                         ''output_type'' (tok_line token)] @ b)))"
proof -
  have one: "render_output self token j outp =
           Inr [System_message (''Unsupported output type: '' @ format_value (py_str self) t)
                  ''output_type'' (tok_line token)]" for j
    using assms by (simp add: render_output_def and_then_simps create_warning_def)
  show ?thesis
    using one [of k] render_outputs_from_middle [OF one [of "length pre"], of rest]
    by simp
qed

theorem unsupported_output_type_warns_witness:
  "py_getattr update_display_data ''output_type'' = Inr (JStr ''update_display_data'')
   \<and> JStr ''update_display_data''
        \<notin> {JStr ''stream'', JStr ''error'', JStr ''display_data'', JStr ''execute_result''}
   \<and> render_output (example_renderer []) (example_token []) 1 update_display_data =
     Inr [System_message ''Unsupported output type: update_display_data'' ''output_type'' 3]
   \<and> render_outputs_from (example_renderer []) (example_token []) 0
       [stream_stdout, update_display_data, execute_result_42] =
     Inr [Element (''stdout'', stream_stdout) (3, ''nb.ipynb''),
          System_message ''Unsupported output type: update_display_data'' ''output_type'' 3,
          Element (''text/plain'', JStr ''42'') (3, ''nb.ipynb'')]"
  using unsupported_output_type_warns [where outp = update_display_data
      and t = "JStr ''update_display_data''"
      and self = "example_renderer []" and token = "example_token []" and k = 1
      and pre = "[stream_stdout]" and rest = "[execute_result_42]"]
  by (simp add: example_defs eval_defs and_then_simps)

text \<open>
  Claim C8.  A \<^verbatim>\<open>stream\<close> output whose \<^verbatim>\<open>name\<close> is neither \<^verbatim>\<open>stdout\<close> nor
  \<^verbatim>\<open>stderr\<close> adds no node at all, neither content nor warning, raises nothing, and the
  loop continues with the outputs that follow it.
\<close>

theorem unknown_stream_name_dropped:
  assumes "py_getattr outp ''output_type'' = Inr (JStr ''stream'')"
      and "py_getattr outp ''name'' = Inr n"
      and "n \<noteq> JStr ''stdout''" and "n \<noteq> JStr ''stderr''"
  shows "render_output self token k outp = Inr []
       \<and> render_outputs_from self token 0 (pre @ outp # rest) =
           and_then (render_outputs_from self token 0 pre) (\<lambda>a.
           and_then (render_outputs_from self token (Suc (length pre)) rest) (\<lambda>b.
             Inr (a @ b)))"
proof -
  have one: "render_output self token j outp = Inr []" for j
    using assms by (simp add: render_output_def and_then_simps)
  show ?thesis
    using one [of k] render_outputs_from_middle [OF one [of "length pre"], of rest]
    by simp
qed

theorem unknown_stream_name_dropped_witness:
  "py_getattr stream_stdlog ''output_type'' = Inr (JStr ''stream'')
   \<and> py_getattr stream_stdlog ''name'' = Inr (JStr ''stdlog'')
   \<and> JStr ''stdlog'' \<noteq> JStr ''stdout'' \<and> JStr ''stdlog'' \<noteq> JStr ''stderr''
   \<and> render_output (example_renderer []) (example_token []) 1 stream_stdlog = Inr []
   \<and> render_outputs_from (example_renderer []) (example_token []) 0
       [stream_stdout, stream_stdlog, execute_result_42] =
     Inr [Element (''stdout'', stream_stdout) (3, ''nb.ipynb''),
          Element (''text/plain'', JStr ''42'') (3, ''nb.ipynb'')]"
  using unknown_stream_name_dropped [where outp = stream_stdlog
      and n = "JStr ''stdlog''"
      and self = "example_renderer []" and token = "example_token []" and k = 1
      and pre = "[stream_stdout]" and rest = "[execute_result_42]"]
  by (simp add: example_defs eval_defs and_then_simps)


section \<open>Figure options\<close>

text \<open>
  Claim C9.  The figure options of an output are the \<^verbatim>\<open>figure\<close> entry of the cell's
  render-config dictionary.  When that dictionary has no \<^verbatim>\<open>figure\<close> entry (or there is
  no such dictionary), the lookup raises \<^verbatim>\<open>KeyError\<close> whatever the notebook-level
  configuration contains, the renderer catches it and goes on with no figure options, and
  a \<^verbatim>\<open>display_data\<close> or \<^verbatim>\<open>execute_result\<close> output with a selected mime type is rendered
  as the nodes of \<^verbatim>\<open>render_mime_type\<close> with no figure around them.
\<close>

theorem figure_options_cell_level_only:
  "(map_of (tok_metadata token) (cell_render_key (nb_config self)) = Some (JDict sub)
      \<and> map_of sub ''figure'' = Some v
    \<longrightarrow> figure_options (nb_config self) (tok_metadata token) = Inr (Some v))
   \<and> ((case map_of (tok_metadata token) (cell_render_key (nb_config self)) of
          Some (JDict sub') \<Rightarrow> map_of sub' ''figure'' = None | _ \<Rightarrow> True)
    \<longrightarrow> get_cell_render_config (nb_config self) (tok_metadata token) ''figure'' None False
           = Inl (KeyError ''figure'')
       \<and> figure_options (nb_config self) (tok_metadata token) = Inr None
       \<and> (py_getattr outp ''output_type'' = Inr t
            \<and> (t = JStr ''display_data'' \<or> t = JStr ''execute_result'')
            \<and> select_mime_type (mime_priority self) outp = Inr (Some m)
            \<and> py_getitem outp ''data'' = Inr (JDict mimes)
          \<longrightarrow> (\<exists>payload output_metadata.
                 map_of mimes m = Some payload
               \<and> render_output self token k outp =
                   Inr (stamp self token
                          (render_mime_type (nb_renderer self)
                             \<lparr>md_mime_type = m, md_content = payload,
                              md_cell_metadata = tok_metadata token,
                              md_output_metadata = output_metadata,
                              md_cell_index = tok_index token, md_output_index = k,
                              md_line = tok_line token\<rparr>)))))"
proof (intro conjI impI)
  assume "map_of (tok_metadata token) (cell_render_key (nb_config self)) = Some (JDict sub)
      \<and> map_of sub ''figure'' = Some v"
  then show "figure_options (nb_config self) (tok_metadata token) = Inr (Some v)"
    by (simp add: figure_options_def get_cell_render_config_cell_level)
next
  assume absent: "case map_of (tok_metadata token) (cell_render_key (nb_config self)) of
          Some (JDict sub') \<Rightarrow> map_of sub' ''figure'' = None | _ \<Rightarrow> True"
  show look: "get_cell_render_config (nb_config self) (tok_metadata token) ''figure'' None False
           = Inl (KeyError ''figure'')"
    using get_cell_render_config_nb_level [OF absent, of None False] by simp
  then show "figure_options (nb_config self) (tok_metadata token) = Inr None"
    by (simp add: figure_options_def)
next
  assume absent: "case map_of (tok_metadata token) (cell_render_key (nb_config self)) of
          Some (JDict sub') \<Rightarrow> map_of sub' ''figure'' = None | _ \<Rightarrow> True"
    and out: "py_getattr outp ''output_type'' = Inr t
            \<and> (t = JStr ''display_data'' \<or> t = JStr ''execute_result'')
            \<and> select_mime_type (mime_priority self) outp = Inr (Some m)
            \<and> py_getitem outp ''data'' = Inr (JDict mimes)"
  have fig: "figure_options (nb_config self) (tok_metadata token) = Inr None"
    using get_cell_render_config_nb_level [OF absent, of None False]
    by (simp add: figure_options_def)
  from out have t: "py_getattr outp ''output_type'' = Inr t"
      "t = JStr ''display_data'' \<or> t = JStr ''execute_result''"
    and sel: "select_mime_type (mime_priority self) outp = Inr (Some m)"
    and data: "py_getitem outp ''data'' = Inr (JDict mimes)"
    by simp_all
  have "find (dict_has mimes) (mime_priority self) = Some m"
    using select_mime_type_find [OF data, of "mime_priority self"] sel by simp
  then have "dict_has mimes m" by (auto simp: find_Some_iff)
  then obtain payload where payload: "map_of mimes m = Some payload"
    by (auto simp: dict_has_def)
  obtain d where d: "outp = JDict d"
    using py_getattr_dict [OF t(1)] by blast
  have "render_output self token k outp =
          Inr (stamp self token
                 (render_mime_type (nb_renderer self)
                    \<lparr>md_mime_type = m, md_content = payload,
                     md_cell_metadata = tok_metadata token,
                     md_output_metadata = dict_get d ''metadata'' (JDict []),
                     md_cell_index = tok_index token, md_output_index = k,
                     md_line = tok_line token\<rparr>))"
    unfolding render_output_display [OF t]
    using sel fig data payload d
    by (simp add: and_then_simps dict_getitem_def create_figure_context_def)
  with payload show "\<exists>payload output_metadata.
                 map_of mimes m = Some payload
               \<and> render_output self token k outp =
                   Inr (stamp self token
                          (render_mime_type (nb_renderer self)
                             \<lparr>md_mime_type = m, md_content = payload,
                              md_cell_metadata = tok_metadata token,
                              md_output_metadata = output_metadata,
                              md_cell_index = tok_index token, md_output_index = k,
                              md_line = tok_line token\<rparr>))"
    by blast
qed

theorem figure_options_cell_level_only_witness:
  "map_of [] (cell_render_key example_config) = (None :: json option)
   \<and> select_mime_type [''text/html'', ''text/plain''] execute_result_42 = Inr (Some ''text/plain'')
   \<and> get_cell_render_config
      (example_config\<lparr>options := (''figure'', JDict [(''align'', JStr ''left'')]) # options example_config\<rparr>)
      [] ''figure'' None False = Inl (KeyError ''figure'')
   \<and> render_output
        ((example_renderer [])\<lparr>nb_config :=
           example_config\<lparr>options := (''figure'', JDict [(''align'', JStr ''left'')]) # options example_config\<rparr>\<rparr>)
        (example_token []) 0 execute_result_42
       = Inr [Element (''text/plain'', JStr ''42'') (3, ''nb.ipynb'')]
   \<and> figure_options example_config
        [(''mystnb'', JDict [(''figure'', JDict [(''align'', JStr ''left'')])])]
       = Inr (Some (JDict [(''align'', JStr ''left'')]))"
  using figure_options_cell_level_only [where outp = execute_result_42
      and t = "JStr ''execute_result''" and m = "''text/plain''"
      and mimes = "[(''text/plain'', JStr ''42'')]"
      and self = "(example_renderer [])\<lparr>nb_config :=
           example_config\<lparr>options := (''figure'', JDict [(''align'', JStr ''left'')]) # options example_config\<rparr>\<rparr>"
      and token = "example_token []" and k = 0]
    figure_options_cell_level_only [where self = "example_renderer []"
      and token = "example_token [(''mystnb'', JDict [(''figure'', JDict [(''align'', JStr ''left'')])])]"
      and sub = "[(''figure'', JDict [(''align'', JStr ''left'')])]"
      and v = "JDict [(''align'', JStr ''left'')]"]
  by (simp add: example_defs eval_defs and_then_simps)


section \<open>Cell-level configuration\<close>

text \<open>
  Claim C3.  If the value under the cell's render-config key is a dictionary that has
  \<^verbatim>\<open>key\<close>, \<^verbatim>\<open>get_cell_render_config\<close> returns the cell-level value, whatever the notebook
  level holds and whatever \<^verbatim>\<open>nb_key\<close> and \<^verbatim>\<open>has_nb_key\<close> are.  Otherwise, with the
  notebook fallback allowed, it returns the notebook-level value of \<^verbatim>\<open>nb_key\<close> (of
  \<^verbatim>\<open>key\<close> when no \<^verbatim>\<open>nb_key\<close> is given), and raises \<^verbatim>\<open>KeyError\<close> when the notebook
  level does not define it.
\<close>

theorem get_cell_render_config_precedence:
  "(map_of cell_metadata (cell_render_key cfg) = Some (JDict sub) \<and> map_of sub key = Some v
      \<longrightarrow> get_cell_render_config cfg cell_metadata key nb_key has_nb_key = Inr v)
   \<and> ((case map_of cell_metadata (cell_render_key cfg) of
          Some (JDict sub') \<Rightarrow> map_of sub' key = None | _ \<Rightarrow> True)
      \<longrightarrow> get_cell_render_config cfg cell_metadata key nb_key True =
          (case map_of (options cfg) (case nb_key of Some k \<Rightarrow> k | None \<Rightarrow> key) of
             Some w \<Rightarrow> Inr w
           | None \<Rightarrow> Inl (KeyError (case nb_key of Some k \<Rightarrow> k | None \<Rightarrow> key))))"
  by (auto simp: get_cell_render_config_def use_nb_level_iff and_then_simps dict_getitem_def
        nb_config_getitem_def split: option.splits json.splits)

theorem get_cell_render_config_precedence_witness:
  "map_of [(''mystnb'', JDict [(''number_source_lines'', JBool True)])] ''mystnb''
       = Some (JDict [(''number_source_lines'', JBool True)])
   \<and> map_of [(''number_source_lines'', JBool True)] ''number_source_lines'' = Some (JBool True)
   \<and> map_of [(''tags'', JList [])] ''mystnb'' = None
   \<and> get_cell_render_config \<lparr>cell_render_key = ''mystnb'', options = [(''number_source_lines'', JBool False)]\<rparr>
      [(''mystnb'', JDict [(''number_source_lines'', JBool True)])] ''number_source_lines'' None True = Inr (JBool True)
   \<and> get_cell_render_config \<lparr>cell_render_key = ''mystnb'', options = [(''number_source_lines'', JBool False)]\<rparr>
      [(''tags'', JList [])] ''number_source_lines'' None True = Inr (JBool False)
   \<and> get_cell_render_config \<lparr>cell_render_key = ''mystnb'', options = [(''number_source_lines'', JBool False)]\<rparr>
      [(''tags'', JList [])] ''no_such_option'' None True = Inl (KeyError ''no_such_option'')"
  using get_cell_render_config_precedence [of "[(''mystnb'', JDict [(''number_source_lines'', JBool True)])]"
      "\<lparr>cell_render_key = ''mystnb'', options = [(''number_source_lines'', JBool False)]\<rparr>"
      "[(''number_source_lines'', JBool True)]" "''number_source_lines''" "JBool True" None True]
    get_cell_render_config_precedence [of "[(''tags'', JList [])]"
      "\<lparr>cell_render_key = ''mystnb'', options = [(''number_source_lines'', JBool False)]\<rparr>"
      "[]" "''number_source_lines''" "JNull" None True]
    get_cell_render_config_precedence [of "[(''tags'', JList [])]"
      "\<lparr>cell_render_key = ''mystnb'', options = [(''number_source_lines'', JBool False)]\<rparr>"
      "[]" "''no_such_option''" "JNull" None True]
  by simp

text \<open>
  Claim C10.  If the cell metadata has the render-config key but its value is not a
  dictionary, \<^verbatim>\<open>get_cell_render_config\<close> behaves as it does for metadata without that key:
  it resolves the option at notebook level (and, as always when the cell level does not
  answer, raises \<^verbatim>\<open>KeyError\<close> if the caller excluded the notebook level).  The malformed
  entry itself raises nothing: when the notebook level defines the option, its value is
  returned.  The function only returns a value or raises; it has no access to the
  document tree, so nothing is added there either.
\<close>

theorem non_mapping_render_config_ignored:
  assumes "map_of cell_metadata (cell_render_key cfg) = Some x"
      and "\<forall>d. x \<noteq> JDict d"
  shows "get_cell_render_config cfg cell_metadata key nb_key has_nb_key =
           (if \<not> has_nb_key then Inl (KeyError key)
            else nb_config_getitem cfg (case nb_key of Some k \<Rightarrow> k | None \<Rightarrow> key))
       \<and> get_cell_render_config cfg cell_metadata key nb_key has_nb_key =
           get_cell_render_config cfg [] key nb_key has_nb_key
       \<and> (map_of (options cfg) (case nb_key of Some k \<Rightarrow> k | None \<Rightarrow> key) = Some w \<longrightarrow>
            get_cell_render_config cfg cell_metadata key nb_key True = Inr w)"
proof -
  have "case map_of cell_metadata (cell_render_key cfg) of
      Some (JDict sub) \<Rightarrow> map_of sub key = None | _ \<Rightarrow> True"
    using assms by (cases x) simp_all
  from get_cell_render_config_nb_level [OF this]
       get_cell_render_config_nb_level [where md = "[]" and cfg = cfg and key = key]
  show ?thesis
    by (simp add: nb_config_getitem_def dict_getitem_def)
qed

theorem non_mapping_render_config_ignored_witness:
  "map_of [(''mystnb'', JStr ''remove_code_source'')] (cell_render_key example_config)
       = Some (JStr ''remove_code_source'')
   \<and> (\<forall>d. JStr ''remove_code_source'' \<noteq> JDict d)
   \<and> get_cell_render_config example_config
      [(''mystnb'', JStr ''remove_code_source'')] ''remove_code_source'' None True
     = Inr (JBool False)
   \<and> get_cell_render_config example_config
      [(''mystnb'', JList [JStr ''number_source_lines''])] ''number_source_lines'' None True
     = get_cell_render_config example_config [] ''number_source_lines'' None True"
  using non_mapping_render_config_ignored [where cfg = example_config
          and cell_metadata = "[(''mystnb'', JStr ''remove_code_source'')]"
          and x = "JStr ''remove_code_source''" and key = "''remove_code_source''"
          and nb_key = None and has_nb_key = True and w = "JBool False"]
        non_mapping_render_config_ignored [where cfg = example_config
          and cell_metadata = "[(''mystnb'', JList [JStr ''number_source_lines''])]"
          and x = "JList [JStr ''number_source_lines'']" and key = "''number_source_lines''"
          and nb_key = None and has_nb_key = True and w = "JBool False"]
  by (simp add: example_defs eval_defs and_then_simps)


section \<open>Removing the input and the outputs of a code cell\<close>

text \<open>
  Claim C6.  For cell metadata whose \<^verbatim>\<open>tags\<close> are a list (or absent) and a configuration
  lookup that succeeds with value \<^verbatim>\<open>c\<close>: \<^verbatim>\<open>remove_input\<close> is truthy exactly when the
  effective \<^verbatim>\<open>remove_code_source\<close> value is truthy or the tag \<^verbatim>\<open>remove_input\<close> or the tag
  \<^verbatim>\<open>remove-input\<close> is among the tags; when the configuration value is a boolean, the
  result is the boolean disjunction of the three.  The same holds for \<^verbatim>\<open>remove_output\<close>
  with \<^verbatim>\<open>remove_code_outputs\<close>, \<^verbatim>\<open>remove_output\<close> and \<^verbatim>\<open>remove-output\<close>.
\<close>

theorem remove_flags_resolution:
  assumes "cell_tags metadata = JList tags"
  shows "(get_cell_render_config cfg metadata ''remove_code_source'' None True = Inr c \<longrightarrow>
            (\<exists>v. remove_input cfg metadata = Inr v
               \<and> (py_truthy v \<longleftrightarrow>
                    py_truthy c \<or> JStr ''remove_input'' \<in> set tags
                                \<or> JStr ''remove-input'' \<in> set tags)
               \<and> (\<forall>b. c = JBool b \<longrightarrow>
                    v = JBool (b \<or> JStr ''remove_input'' \<in> set tags
                                 \<or> JStr ''remove-input'' \<in> set tags))))
       \<and> (get_cell_render_config cfg metadata ''remove_code_outputs'' None True = Inr c' \<longrightarrow>
            (\<exists>v. remove_output cfg metadata = Inr v
               \<and> (py_truthy v \<longleftrightarrow>
                    py_truthy c' \<or> JStr ''remove_output'' \<in> set tags
                                 \<or> JStr ''remove-output'' \<in> set tags)
               \<and> (\<forall>b. c' = JBool b \<longrightarrow>
                    v = JBool (b \<or> JStr ''remove_output'' \<in> set tags
                                 \<or> JStr ''remove-output'' \<in> set tags))))"
  using remove_flag_list [OF _ assms, of cfg "''remove_code_source''" c
          "''remove_input''" "''remove-input''"]
        remove_flag_list [OF _ assms, of cfg "''remove_code_outputs''" c'
          "''remove_output''" "''remove-output''"]
  by (auto simp: remove_input_def remove_output_def)

theorem remove_flags_resolution_witness:
  "cell_tags [(''tags'', JList [JStr ''remove-input''])] = JList [JStr ''remove-input'']
   \<and> get_cell_render_config example_config [(''tags'', JList [JStr ''remove-input''])]
         ''remove_code_source'' None True = Inr (JBool False)
   \<and> remove_input example_config [(''tags'', JList [JStr ''remove-input''])] = Inr (JBool True)
   \<and> remove_input example_config [(''tags'', JList [JStr ''remove_input''])] = Inr (JBool True)
   \<and> remove_output example_config [(''tags'', JList [JStr ''remove-input''])] = Inr (JBool False)
   \<and> remove_output example_config [(''tags'', JList [JStr ''remove-output''])] = Inr (JBool True)
   \<and> remove_input example_config
        [(''mystnb'', JDict [(''remove_code_source'', JBool True)])] = Inr (JBool True)"
  using remove_flags_resolution [where metadata = "[(''tags'', JList [JStr ''remove-input''])]"
          and tags = "[JStr ''remove-input'']" and cfg = example_config
          and c = "JBool False" and c' = "JBool False"]
        remove_flags_resolution [where metadata = "[(''tags'', JList [JStr ''remove_input''])]"
          and tags = "[JStr ''remove_input'']" and cfg = example_config
          and c = "JBool False" and c' = "JBool False"]
        remove_flags_resolution [where metadata = "[(''tags'', JList [JStr ''remove-output''])]"
          and tags = "[JStr ''remove-output'']" and cfg = example_config
          and c = "JBool False" and c' = "JBool False"]
        remove_flags_resolution [where
              metadata = "[(''mystnb'', JDict [(''remove_code_source'', JBool True)])]"
          and tags = "[]" and cfg = example_config
          and c = "JBool True" and c' = "JBool False"]
  by (simp add: example_defs eval_defs and_then_simps remove_input_def remove_output_def)

text \<open>
  Claim C5.  When \<^verbatim>\<open>remove_input\<close> and \<^verbatim>\<open>remove_output\<close> both resolve to a truthy
  value, \<^verbatim>\<open>render_nb_cell_code\<close> returns without adding any node, not even the cell
  container.
\<close>

theorem both_removed_emits_nothing:
  assumes "remove_input (nb_config self) (tok_metadata token) = Inr a"
      and "remove_output (nb_config self) (tok_metadata token) = Inr b"
      and "py_truthy a" and "py_truthy b"
  shows "render_nb_cell_code self token = Inr []"
  using assms by (simp add: render_nb_cell_code_def and_then_simps)

theorem both_removed_emits_nothing_witness:
  "remove_input example_config
        [(''tags'', JList [JStr ''remove-input'', JStr ''remove_output''])] = Inr (JBool True)
   \<and> remove_output example_config
        [(''tags'', JList [JStr ''remove-input'', JStr ''remove_output''])] = Inr (JBool True)
   \<and> render_nb_cell_code (example_renderer [[(''outputs'', JList [execute_result_42])]])
     (example_token [(''tags'', JList [JStr ''remove-input'', JStr ''remove_output''])]) = Inr []"
  using both_removed_emits_nothing [where
        self = "example_renderer [[(''outputs'', JList [execute_result_42])]]"
    and token = "example_token [(''tags'', JList [JStr ''remove-input'', JStr ''remove_output''])]"
    and a = "JBool True" and b = "JBool True"]
  by (simp add: example_defs eval_defs and_then_simps remove_input_def remove_output_def)


section \<open>Notebook order\<close>

text \<open>
  Claim C4, as stated, fails: the cell loop of \<^verbatim>\<open>NotebookParser.parse\<close> skips every cell
  whose source is empty (\<^verbatim>\<open>if len(cell["source"]) == 0: continue\<close>).  Here a code cell
  with empty source, no tags and both removal options off is skipped, although neither
  \<^verbatim>\<open>remove_input\<close> nor \<^verbatim>\<open>remove_output\<close> resolves true for it.
\<close>

theorem empty_cell_skipped_counterexample:
  "parse_cells example_render_myst example_str [empty_code_cell] = Inr []
   \<and> dict_getitem empty_code_cell ''cell_type'' = Inr (JStr ''code'')
   \<and> remove_input example_config [] = Inr (JBool False)
   \<and> remove_output example_config [] = Inr (JBool False)"
  by (simp add: example_defs eval_defs and_then_simps parse_cell_def
        remove_input_def remove_output_def)

text \<open>
  Claim C4, amended.  Rendering preserves notebook order.  The cell loop of
  \<^verbatim>\<open>NotebookParser.parse\<close> goes through the cells in index order, and what it adds is the
  concatenation, in that order, of what each cell adds; a cell with empty source adds
  nothing; a code cell with non-empty source adds exactly one cell node holding its
  source and its outputs; a markdown cell with non-empty source adds what the markdown
  renderer makes of the source (inside a toggle container when tagged
  \<^verbatim>\<open>hide_input\<close>).  \<^verbatim>\<open>render_nb_cell_code\<close> adds nothing exactly when \<^verbatim>\<open>remove_input\<close>
  and \<^verbatim>\<open>remove_output\<close> both resolve true, and one cell container otherwise.  The nodes
  of a code cell's outputs are the concatenation, in \<^verbatim>\<open>output_index\<close> order, of the nodes
  of each output.
\<close>

theorem notebook_order_preserved:
  "(parse_cells R S cells = Inr ns \<longrightarrow>
      (\<exists>nss. length nss = length cells
           \<and> (\<forall>k < length cells. parse_cell R S (cells ! k) = Inr (nss ! k))
           \<and> ns = concat nss))
   \<and> (dict_getitem cell ''source'' = Inr src \<and> py_len src = Inr 0 \<longrightarrow>
        parse_cell R S cell = Inr [])
   \<and> (parse_cell R S cell' = Inr cns
        \<and> dict_getitem cell' ''source'' = Inr src' \<and> py_len src' = Inr n \<and> 0 < n
        \<and> dict_getitem cell' ''cell_type'' = Inr (JStr ''code'') \<longrightarrow>
        (\<exists>classes outputs.
           cns = [CellNode classes (JStr ''code'')
                    [CellInputNode [''cell_input''] [literal_block src'],
                     CellOutputNode [''cell_output''] [CellOutputBundleNode outputs]]]))
   \<and> (parse_cell R S cell' = Inr cns
        \<and> dict_getitem cell' ''source'' = Inr src' \<and> py_len src' = Inr n \<and> 0 < n
        \<and> dict_getitem cell' ''cell_type'' = Inr (JStr ''markdown'') \<longrightarrow>
        (\<exists>source. src' = JStr source
           \<and> (cns = map Myst (R (if suffix [CHR 0x0A] source then source
                                   else source @ [CHR 0x0A]))
              \<or> cns = [container [''toggle'']
                         (map Myst (R (if suffix [CHR 0x0A] source then source
                                       else source @ [CHR 0x0A])))])))
   \<and> (render_nb_cell_code self token = Inr tns \<longrightarrow>
        (\<exists>a b. remove_input (nb_config self) (tok_metadata token) = Inr a
             \<and> remove_output (nb_config self) (tok_metadata token) = Inr b
             \<and> (tns = [] \<longleftrightarrow> py_truthy a \<and> py_truthy b)
             \<and> (tns \<noteq> [] \<longrightarrow>
                  (\<exists>classes children.
                     tns = [Container ''cell_code'' classes
                              [(''cell_index'', JInt (int (tok_index token))),
                               (''exec_count'', tok_execution_count token),
                               (''cell_metadata'', JDict (tok_metadata token))]
                              (location self token) children]))))
   \<and> (render_nb_cell_code_outputs self token = Inr ons \<longrightarrow>
        (\<exists>outputs outs nss.
             cell_outputs self (tok_index token) = Inr outputs \<and> py_iter outputs = Inr outs
           \<and> length nss = length outs
           \<and> (\<forall>k < length outs. render_output self token k (outs ! k) = Inr (nss ! k))
           \<and> ons = concat nss))"
  using parse_cells_in_order [of R S cells ns]
        parse_cell_empty_source [of cell src R S]
        parse_cell_code [of R S cell' cns src' n]
        parse_cell_markdown [of R S cell' cns src' n]
        render_nb_cell_code_shape [of self token tns]
        render_nb_cell_code_outputs_in_order [of self token ons]
  by blast

theorem notebook_order_preserved_witness:
  "dict_getitem empty_code_cell ''source'' = Inr (JStr []) \<and> py_len (JStr []) = Inr 0
   \<and> parse_cells example_render_myst example_str [title_cell, empty_code_cell, code_cell] =
     Inr [Myst (''# Title'' @ [CHR 0x0A]),
          CellNode [''cell''] (JStr ''code'')
            [CellInputNode [''cell_input''] [literal_block (JStr ''1+1'')],
             CellOutputNode [''cell_output'']
               [CellOutputBundleNode (JList [stream_stdout, stream_stdlog, execute_result_42])]]]
   \<and> parse_cell example_render_myst example_str empty_code_cell = Inr []
   \<and> render_nb_cell_code_outputs (example_renderer [code_cell]) (example_token []) =
       Inr [Element (''stdout'', stream_stdout) (3, ''nb.ipynb''),
            Element (''text/plain'', JStr ''42'') (3, ''nb.ipynb'')]
   \<and> render_nb_cell_code (example_renderer [code_cell]) (example_token []) =
       Inr [Container ''cell_code'' [''cell'']
              [(''cell_index'', JInt 0), (''exec_count'', JInt 1), (''cell_metadata'', JDict [])]
              (3, ''nb.ipynb'')
              [Container ''cell_code_source'' [''cell_input''] [] (3, ''nb.ipynb'')
                 [Literal_block ''1+1'' JNull (JBool False) (3, ''nb.ipynb'')],
               Container ''cell_code_output'' [''cell_output''] [] (3, ''nb.ipynb'')
                 [Element (''stdout'', stream_stdout) (3, ''nb.ipynb''),
                  Element (''text/plain'', JStr ''42'') (3, ''nb.ipynb'')]]]"
proof -
  have cells: "parse_cells example_render_myst example_str
                 [title_cell, empty_code_cell, code_cell] =
     Inr [Myst (''# Title'' @ [CHR 0x0A]),
          CellNode [''cell''] (JStr ''code'')
            [CellInputNode [''cell_input''] [literal_block (JStr ''1+1'')],
             CellOutputNode [''cell_output'']
               [CellOutputBundleNode (JList [stream_stdout, stream_stdlog, execute_result_42])]]]"
    by (simp add: example_defs eval_defs and_then_simps parse_cell_def nb_cell_tags_def
          suffix_to_prefix)
  have src: "dict_getitem empty_code_cell ''source'' = Inr (JStr []) \<and> py_len (JStr []) = Inr 0"
    by (simp add: example_defs eval_defs)
  have outs: "render_nb_cell_code_outputs (example_renderer [code_cell]) (example_token []) =
       Inr [Element (''stdout'', stream_stdout) (3, ''nb.ipynb''),
            Element (''text/plain'', JStr ''42'') (3, ''nb.ipynb'')]"
    by (simp add: example_defs eval_defs and_then_simps render_nb_cell_code_outputs_def
          cell_outputs_def)
  have code: "render_nb_cell_code (example_renderer [code_cell]) (example_token []) =
       Inr [Container ''cell_code'' [''cell'']
              [(''cell_index'', JInt 0), (''exec_count'', JInt 1), (''cell_metadata'', JDict [])]
              (3, ''nb.ipynb'')
              [Container ''cell_code_source'' [''cell_input''] [] (3, ''nb.ipynb'')
                 [Literal_block ''1+1'' JNull (JBool False) (3, ''nb.ipynb'')],
               Container ''cell_code_output'' [''cell_output''] [] (3, ''nb.ipynb'')
                 [Element (''stdout'', stream_stdout) (3, ''nb.ipynb''),
                  Element (''text/plain'', JStr ''42'') (3, ''nb.ipynb'')]]]"
    by (simp add: example_defs eval_defs and_then_simps render_nb_cell_code_def
          render_nb_cell_code_outputs_def render_nb_cell_code_source_def
          cell_outputs_def remove_input_def remove_output_def Let_def)
  from notebook_order_preserved [where R = example_render_myst and S = example_str
      and cell = empty_code_cell and src = "JStr []"] src
  have "parse_cell example_render_myst example_str empty_code_cell = Inr []"
    by blast
  with src cells outs code show ?thesis by simp
qed

end
